theory Spec2Isabelle
  imports Complex_Main
begin

section \<open>Python values used by \<open>ml_predictor.py\<close>\<close>

text \<open>
  A Python \<open>str\<close> is a sequence of Unicode code points; \<open>len\<close>, \<open>count\<close>, \<open>in\<close> and
  \<open>ord\<close> all work on code points, so a string is a list of naturals here. String
  literals of the source are written \<open>str ''...''\<close>.
\<close>

type_synonym pystr = "nat list"

definition str :: "string \<Rightarrow> pystr" where
  "str s = map (of_char :: char \<Rightarrow> nat) s"

text \<open>
  The \<open>url\<close> argument is annotated \<open>str\<close>, which Python does not enforce. \<open>PyNone\<close> stands
  for the one non-string argument followed through the code: it is what makes the
  \<open>except\<close> branch of \<open>predict\<close> reachable.
\<close>

datatype pyobj = Str pystr | PyNone

datatype py_error =
  ValueError | TypeError | AttributeError | KeyError | ImportError
  | ZeroDivisionError | XGBoostError

text \<open>\<open>try: body except Exception: handler\<close>.\<close>

definition try_except :: "py_error + 'a \<Rightarrow> (py_error \<Rightarrow> py_error + 'a) \<Rightarrow> py_error + 'a" where
  "try_except body handler = (case body of Inl e \<Rightarrow> handler e | Inr v \<Rightarrow> Inr v)"

subsection \<open>String methods\<close>

text \<open>\<open>s.count(c)\<close> for a one-character \<open>c\<close>.\<close>

definition count_char :: "nat \<Rightarrow> pystr \<Rightarrow> nat" where
  "count_char c s = length (filter (\<lambda>x. x = c) s)"

fun startswith :: "pystr \<Rightarrow> pystr \<Rightarrow> bool" where
  "startswith [] s = True"
| "startswith (c # cs) [] = False"
| "startswith (c # cs) (x # xs) = (c = x \<and> startswith cs xs)"

definition endswith :: "pystr \<Rightarrow> pystr \<Rightarrow> bool" where
  "endswith p s = startswith (rev p) (rev s)"

text \<open>\<open>sub in s\<close>.\<close>

fun contains :: "pystr \<Rightarrow> pystr \<Rightarrow> bool" where
  "contains sub [] = (sub = [])"
| "contains sub (c # cs) = (startswith sub (c # cs) \<or> contains sub cs)"

text \<open>\<open>s.split(':')[0]\<close>: everything before the first colon.\<close>

definition split_colon_first :: "pystr \<Rightarrow> pystr" where
  "split_colon_first s = takeWhile (\<lambda>c. c \<noteq> 58) s"

text \<open>\<open>str.lower\<close> on ASCII text.\<close>

definition ascii_lower :: "pystr \<Rightarrow> pystr" where
  "ascii_lower s = map (\<lambda>c. if 65 \<le> c \<and> c \<le> 90 then c + 32 else c) s"

subsection \<open>Dictionaries of features\<close>

text \<open>
  \<open>Dict[str, float]\<close>, in insertion order. A lookup takes the first binding of a key, so
  consing a binding is \<open>d[k] = v\<close>. The float values are taken as reals: the extractor
  only produces small whole numbers, on which float and real arithmetic agree.
\<close>

type_synonym features = "(string \<times> real) list"

text \<open>\<open>d.get(k, default)\<close>.\<close>

definition dict_get :: "features \<Rightarrow> string \<Rightarrow> real \<Rightarrow> real" where
  "dict_get d k dflt = (case map_of d k of None \<Rightarrow> dflt | Some v \<Rightarrow> v)"

text \<open>\<open>d[k]\<close>.\<close>

definition dict_item :: "features \<Rightarrow> string \<Rightarrow> py_error + real" where
  "dict_item d k = (case map_of d k of None \<Rightarrow> Inl KeyError | Some v \<Rightarrow> Inr v)"

text \<open>\<open>a / b\<close> on floats.\<close>

definition py_truediv :: "real \<Rightarrow> real \<Rightarrow> py_error + real" where
  "py_truediv a b = (if b = 0 then Inl ZeroDivisionError else Inr (a / b))"

text \<open>\<open>int(x)\<close> on a float: truncation towards zero.\<close>

definition py_int :: "real \<Rightarrow> int" where
  "py_int x = (if 0 \<le> x then \<lfloor>x\<rfloor> else \<lceil>x\<rceil>)"

section \<open>Regular expressions\<close>

text \<open>
  The fragment of \<open>re\<close> that the patterns of the source use. \<open>Eos\<close> is \<open>$\<close>, \<open>Wb\<close> is
  \<open>\b\<close>, \<open>Cls\<close> a character class given by its ranges, \<open>PlusCls\<close> a class under \<open>+\<close>.
\<close>

datatype regex =
  Lit pystr
  | Cls "(nat \<times> nat) list"
  | PlusCls "(nat \<times> nat) list"
  | Cat regex regex
  | Alt regex regex
  | Eos
  | Wb

definition in_class :: "(nat \<times> nat) list \<Rightarrow> nat \<Rightarrow> bool" where
  "in_class rs c = list_ex (\<lambda>r. fst r \<le> c \<and> c \<le> snd r) rs"

text \<open>
  A position in the subject string is the character before it, if any, and the text
  from it on: \<open>\b\<close> looks at both sides.
\<close>

type_synonym position = "nat option \<times> pystr"

fun eat_lit :: "pystr \<Rightarrow> nat option \<Rightarrow> pystr \<Rightarrow> position list" where
  "eat_lit [] prev s = [(prev, s)]"
| "eat_lit (c # cs) prev [] = []"
| "eat_lit (c # cs) prev (x # xs) = (if c = x then eat_lit cs (Some x) xs else [])"

text \<open>One or more characters of a class: every length the run allows.\<close>

fun eat_plus :: "(nat \<times> nat) list \<Rightarrow> pystr \<Rightarrow> position list" where
  "eat_plus rs [] = []"
| "eat_plus rs (x # xs) = (if in_class rs x then (Some x, xs) # eat_plus rs xs else [])"

definition is_word :: "(nat \<Rightarrow> bool) \<Rightarrow> nat option \<Rightarrow> bool" where
  "is_word w c = (case c of None \<Rightarrow> False | Some x \<Rightarrow> w x)"

definition next_char :: "pystr \<Rightarrow> nat option" where
  "next_char s = (case s of [] \<Rightarrow> None | x # xs \<Rightarrow> Some x)"

text \<open>
  \<open>rx_ends w r prev s\<close>: the positions where a match of \<open>r\<close> that starts at the position
  \<open>(prev, s)\<close> can end. \<open>w\<close> says which code points are word characters (\<open>\w\<close>).
  \<open>$\<close> matches at the end of the string and before a newline that ends it.
\<close>

fun rx_ends :: "(nat \<Rightarrow> bool) \<Rightarrow> regex \<Rightarrow> nat option \<Rightarrow> pystr \<Rightarrow> position list" where
  "rx_ends w (Lit l) prev s = eat_lit l prev s"
| "rx_ends w (Cls rs) prev s =
     (case s of [] \<Rightarrow> [] | x # xs \<Rightarrow> if in_class rs x then [(Some x, xs)] else [])"
| "rx_ends w (PlusCls rs) prev s = eat_plus rs s"
| "rx_ends w (Cat a b) prev s =
     concat (map (\<lambda>pos. rx_ends w b (fst pos) (snd pos)) (rx_ends w a prev s))"
| "rx_ends w (Alt a b) prev s = rx_ends w a prev s @ rx_ends w b prev s"
| "rx_ends w Eos prev s = (if s = [] \<or> s = [10] then [(prev, s)] else [])"
| "rx_ends w Wb prev s =
     (if is_word w prev \<noteq> is_word w (next_char s) then [(prev, s)] else [])"

text \<open>\<open>re.search(r, s)\<close> finds a match: some start position has an end position.\<close>

fun search_from :: "(nat \<Rightarrow> bool) \<Rightarrow> regex \<Rightarrow> nat option \<Rightarrow> pystr \<Rightarrow> bool" where
  "search_from w r prev [] = (rx_ends w r prev [] \<noteq> [])"
| "search_from w r prev (x # xs) =
     (rx_ends w r prev (x # xs) \<noteq> [] \<or> search_from w r (Some x) xs)"

definition re_search :: "(nat \<Rightarrow> bool) \<Rightarrow> regex \<Rightarrow> pystr \<Rightarrow> bool" where
  "re_search w r s = search_from w r None s"

text \<open>Sequences, and the counted repetitions \<open>r{n}\<close> and \<open>r{1,3}\<close>.\<close>

fun seq :: "regex list \<Rightarrow> regex" where
  "seq [] = Lit []"
| "seq [r] = r"
| "seq (r # rs) = Cat r (seq rs)"

definition rep2 :: "regex \<Rightarrow> regex" where
  "rep2 r = Cat r r"

definition rep3 :: "regex \<Rightarrow> regex" where
  "rep3 r = Cat r (Cat r r)"

definition rep1to3 :: "regex \<Rightarrow> regex" where
  "rep1to3 r = Alt (Cat r (Cat r r)) (Alt (Cat r r) r)"

definition lower_az :: "(nat \<times> nat) list" where
  "lower_az = [(97, 122)]"

definition digit09 :: "(nat \<times> nat) list" where
  "digit09 = [(48, 57)]"

section \<open>The Python runtime around the predictor\<close>

record parse_result =
  scheme :: pystr
  netloc :: pystr

text \<open>
  The loaded booster: \<open>DMatrix\<close> on the feature row, then \<open>predict(...)[0]\<close>. The
  answer is a \<open>numpy.float32\<close>; a finite float is taken by the real number it stands
  for.
\<close>

type_synonym booster = "real list \<Rightarrow> py_error + real"

text \<open>
  What the module takes from outside the repository: \<open>urllib.parse.urlparse\<close> (which may
  raise \<open>ValueError\<close>), \<open>str.lower\<close>, which code points beyond ASCII count as \<open>\w\<close>,
  whether the model file exists, whether \<open>import xgboost\<close> succeeds, what
  \<open>Booster.load_model\<close> gives, and NumPy's arithmetic on the \<open>float32\<close> probability.

  The last three fields are the operations the model scorer applies to the probability:
  \<open>np_greater p c\<close> is the test \<open>p > c\<close> against a literal, \<open>np_multiply a b\<close> the value
  of \<open>a * b\<close> and \<open>np_subtract a b\<close> the value of \<open>a - b\<close>. Whether they round to
  \<open>float32\<close> or to \<open>float64\<close>, and to which of the two a literal is converted before
  a comparison, depends on the NumPy version, so no arithmetic is fixed here. The
  conversions \<open>float(x)\<close> and \<open>int(x)\<close> of a result are exact on its value.
\<close>

record runtime =
  urlparse :: "pystr \<Rightarrow> py_error + parse_result"
  str_lower :: "pystr \<Rightarrow> pystr"
  unicode_alnum :: "nat \<Rightarrow> bool"
  path_exists :: bool
  xgboost_installed :: bool
  load_model :: "py_error + booster"
  np_greater :: "real \<Rightarrow> real \<Rightarrow> bool"
  np_multiply :: "real \<Rightarrow> real \<Rightarrow> real"
  np_subtract :: "real \<Rightarrow> real \<Rightarrow> real"

definition word_char :: "runtime \<Rightarrow> nat \<Rightarrow> bool" where
  "word_char env c =
     (if c < 128
      then (48 \<le> c \<and> c \<le> 57) \<or> (65 \<le> c \<and> c \<le> 90) \<or> (97 \<le> c \<and> c \<le> 122) \<or> c = 95
      else unicode_alnum env c)"

subsection \<open>CPython's \<open>urlsplit\<close>, scheme and authority\<close>

text \<open>
  \<open>urllib.parse.urlsplit\<close> of CPython 3.11 as far as the scheme and the netloc go:
  leading C0 controls and spaces are stripped, tabs and newlines removed, a scheme is
  split off at the first colon when the text before it is a letter followed by scheme
  characters, and after \<open>//\<close> the netloc runs up to the first of \<open>/ ? #\<close>. A netloc
  with only one of the two square brackets raises \<open>ValueError\<close>. The validation of a
  bracketed IPv6 literal and the NFKC check of a non-ASCII netloc are left out; the
  inputs evaluated below have neither.
\<close>

definition ascii_alpha :: "nat \<Rightarrow> bool" where
  "ascii_alpha c = ((65 \<le> c \<and> c \<le> 90) \<or> (97 \<le> c \<and> c \<le> 122))"

definition scheme_char :: "nat \<Rightarrow> bool" where
  "scheme_char c = (ascii_alpha c \<or> (48 \<le> c \<and> c \<le> 57) \<or> c = 43 \<or> c = 45 \<or> c = 46)"

definition split_scheme :: "pystr \<Rightarrow> pystr \<times> pystr" where
  "split_scheme url =
     (let head = takeWhile (\<lambda>c. c \<noteq> 58) url
      in if length head < length url \<and> head \<noteq> [] \<and> ascii_alpha (hd head) \<and> list_all scheme_char head
         then (ascii_lower head, drop (length head + 1) url)
         else ([], url))"

definition cpython_urlparse :: "pystr \<Rightarrow> py_error + parse_result" where
  "cpython_urlparse url0 =
     (let url = dropWhile (\<lambda>c. c \<le> 32) url0;
          url = filter (\<lambda>c. c \<noteq> 9 \<and> c \<noteq> 10 \<and> c \<noteq> 13) url;
          (sch, rest) = split_scheme url;
          loc = (if take 2 rest = [47, 47]
                 then takeWhile (\<lambda>c. c \<noteq> 47 \<and> c \<noteq> 63 \<and> c \<noteq> 35) (drop 2 rest)
                 else [])
      in if (91 \<in> set loc) \<noteq> (93 \<in> set loc) then Inl ValueError
         else Inr \<lparr>scheme = sch, netloc = loc\<rparr>)"

text \<open>
  A runtime for ASCII URLs, with no model file. Its arithmetic on the probability is
  exact. The probabilities evaluated below (97/128, 1/2, 1/4) are chosen so that
  \<open>float32\<close> and \<open>float64\<close> arithmetic are exact on them as well: each product and
  difference formed from them is a dyadic number of at most 12 bits, and none of them is
  near 0.7 or 0.3.
\<close>

definition cpython :: runtime where
  "cpython = \<lparr>urlparse = cpython_urlparse, str_lower = ascii_lower,
     unicode_alnum = (\<lambda>c. False), path_exists = False, xgboost_installed = False,
     load_model = Inl XGBoostError,
     np_greater = (\<lambda>a b. a > b), np_multiply = (\<lambda>a b. a * b),
     np_subtract = (\<lambda>a b. a - b)\<rparr>"

section \<open>Module constants\<close>

definition suspicious_keywords :: "pystr list" where
  "suspicious_keywords = map str
     [''login'', ''secure'', ''account'', ''update'', ''bank'', ''paypal'', ''verify'',
      ''confirm'', ''signin'', ''password'', ''suspended'', ''limited'', ''expire'',
      ''urgent'', ''immediate'', ''click'', ''here'', ''now'', ''free'', ''winner'']"

text \<open>
  \<open>TRUSTED_DOMAINS\<close> and \<open>MALAYSIAN_EDU_DOMAINS\<close> are sets in the source. They are
  listed in the order written; a loop over them that returns at the first match gives
  the same truth value in any order.
\<close>

definition TRUSTED_DOMAINS :: "pystr list" where
  "TRUSTED_DOMAINS = map str
     [''google.com'', ''facebook.com'', ''twitter.com'', ''instagram.com'', ''linkedin.com'',
      ''amazon.com'', ''microsoft.com'', ''apple.com'', ''github.com'', ''stackoverflow.com'',
      ''youtube.com'', ''gmail.com'', ''outlook.com'', ''yahoo.com'', ''reddit.com'',
      ''wikipedia.org'', ''mozilla.org'', ''github.io'', ''cloudflare.com'', ''netflix.com'',
      ''spotify.com'', ''dropbox.com'', ''adobe.com'', ''salesforce.com'', ''zoom.us'',
      ''discord.com'', ''slack.com'', ''twitch.tv'', ''medium.com'', ''wordpress.com'']"

text \<open>
  Each pattern with its source text, which the reason string quotes. \<open>raw\<close> writes a
  raw string of the source from its pieces: a backslash goes before each piece.
\<close>

definition raw :: "string list \<Rightarrow> pystr" where
  "raw pieces = concat (map (\<lambda>p. 92 # str p) pieces)"

definition TRUSTED_TLD_PATTERNS :: "(pystr \<times> regex) list" where
  "TRUSTED_TLD_PATTERNS =
     [(raw [''.edu$''], seq [Lit (str ''.edu''), Eos]),
      (raw [''.edu'', ''.[a-z]{2}$''], seq [Lit (str ''.edu.''), rep2 (Cls lower_az), Eos]),
      (raw [''.ac'', ''.[a-z]{2}$''], seq [Lit (str ''.ac.''), rep2 (Cls lower_az), Eos]),
      (raw [''.univ-[a-z]+'', ''.fr$''],
         seq [Lit (str ''.univ-''), PlusCls lower_az, Lit (str ''.fr''), Eos]),
      (raw [''.gov$''], seq [Lit (str ''.gov''), Eos]),
      (raw [''.gov'', ''.[a-z]{2}$''], seq [Lit (str ''.gov.''), rep2 (Cls lower_az), Eos]),
      (raw [''.mil$''], seq [Lit (str ''.mil''), Eos]),
      (raw [''.mil'', ''.[a-z]{2}$''], seq [Lit (str ''.mil.''), rep2 (Cls lower_az), Eos]),
      (raw [''.uthm'', ''.edu'', ''.my$''], seq [Lit (str ''.uthm.edu.my''), Eos]),
      (raw [''.utm'', ''.my$''], seq [Lit (str ''.utm.my''), Eos]),
      (raw [''.upm'', ''.edu'', ''.my$''], seq [Lit (str ''.upm.edu.my''), Eos]),
      (raw [''.um'', ''.edu'', ''.my$''], seq [Lit (str ''.um.edu.my''), Eos])]"

definition MALAYSIAN_EDU_DOMAINS :: "pystr list" where
  "MALAYSIAN_EDU_DOMAINS = map str
     [''uthm.edu.my'', ''utm.my'', ''upm.edu.my'', ''um.edu.my'', ''usm.my'', ''ukm.my'',
      ''utp.edu.my'', ''mmu.edu.my'']"

definition feature_names :: "string list" where
  "feature_names =
     [''URL_Length'', ''Special_Chars'', ''Num_Subdomains'', ''Suspicious_Keywords'', ''Has_HTTPS'']"

section \<open>\<open>PhishingPredictor\<close>\<close>

record predictor =
  model :: "booster option"
  model_loaded :: bool

text \<open>A \<open>Booster()\<close> on which \<open>load_model\<close> failed.\<close>

definition unloaded_booster :: booster where
  "unloaded_booster = (\<lambda>row. Inl XGBoostError)"

text \<open>
  \<open>_load_xgboost_model\<close>: every failure is caught and leaves \<open>model_loaded\<close> false.
  When \<open>load_model\<close> raises, \<open>self.model\<close> already holds the fresh booster.
\<close>

definition load_xgboost_model :: "runtime \<Rightarrow> predictor \<Rightarrow> predictor" where
  "load_xgboost_model env self =
     (if \<not> path_exists env then self
      else if \<not> xgboost_installed env then self
      else (case load_model env of
              Inl e \<Rightarrow> self\<lparr>model := Some unloaded_booster\<rparr>
            | Inr b \<Rightarrow> self\<lparr>model := Some b, model_loaded := True\<rparr>))"

text \<open>\<open>__init__\<close>.\<close>

definition PhishingPredictor :: "runtime \<Rightarrow> predictor" where
  "PhishingPredictor env = load_xgboost_model env \<lparr>model = None, model_loaded = False\<rparr>"

subsection \<open>\<open>extract_features\<close>\<close>

definition zero_features :: features where
  "zero_features =
     [(''URL_Length'', 0), (''Special_Chars'', 0), (''Num_Subdomains'', 0),
      (''Suspicious_Keywords'', 0), (''Has_HTTPS'', 0)]"

text \<open>
  The body of the \<open>try\<close>. On \<open>None\<close>, \<open>urlparse\<close> returns an empty bytes result and
  \<open>len(url)\<close> raises \<open>TypeError\<close>.
\<close>

definition extract_features_try :: "runtime \<Rightarrow> pyobj \<Rightarrow> py_error + features" where
  "extract_features_try env url =
     (case url of
        PyNone \<Rightarrow> Inl TypeError
      | Str u \<Rightarrow>
          (case urlparse env u of
             Inl e \<Rightarrow> Inl e
           | Inr parsed \<Rightarrow>
               (let url_length = length u;
                    special_chars = sum_list (map (\<lambda>c. count_char c u) (str ''@/?=_-&%#''));
                    num_subdomains =
                      (if netloc parsed \<noteq> []
                       then max 0 (int (count_char 46 (netloc parsed)) - 1)
                       else 0);
                    url_lower = str_lower env u;
                    suspicious_count =
                      length (filter (\<lambda>keyword. contains keyword url_lower) suspicious_keywords);
                    has_https = (if scheme parsed = str ''https'' then 1 else 0)
                in Inr [(''URL_Length'', real url_length),
                        (''Special_Chars'', real special_chars),
                        (''Num_Subdomains'', real_of_int num_subdomains),
                        (''Suspicious_Keywords'', real suspicious_count),
                        (''Has_HTTPS'', has_https)])))"

definition extract_features :: "runtime \<Rightarrow> pyobj \<Rightarrow> py_error + features" where
  "extract_features env url =
     try_except (extract_features_try env url) (\<lambda>e. Inr zero_features)"

subsection \<open>\<open>is_trusted_domain\<close>\<close>

definition prefixes_to_remove :: "pystr list" where
  "prefixes_to_remove =
     map str [''www.'', ''mail.'', ''webmail.'', ''m.'', ''mobile.'', ''app.'', ''api.'']"

text \<open>
  From \<open>parsed.netloc\<close> to \<open>domain\<close>: lower-cased, the first prefix of the list that
  matches removed, cut at the first colon.
\<close>

definition normalize_domain :: "runtime \<Rightarrow> pystr \<Rightarrow> pystr" where
  "normalize_domain env loc =
     (let domain = str_lower env loc;
          domain = (case find (\<lambda>prefix. startswith prefix domain) prefixes_to_remove of
                      Some prefix \<Rightarrow> drop (length prefix) domain
                    | None \<Rightarrow> domain)
      in split_colon_first domain)"

text \<open>\<open>domain == trusted or domain.endswith('.' + trusted)\<close>.\<close>

definition domain_matches :: "pystr \<Rightarrow> pystr \<Rightarrow> bool" where
  "domain_matches domain trusted = (domain = trusted \<or> endswith (46 # trusted) domain)"

definition university_keywords :: "pystr list" where
  "university_keywords = map str [''university'', ''univ'', ''college'', ''school'', ''academy'']"

definition edu_blacklist :: "pystr list" where
  "edu_blacklist = map str [''login'', ''secure'', ''verify'', ''update'']"

text \<open>
  The body of the \<open>try\<close>. On \<open>None\<close> the netloc is the bytes \<open>b''\<close>, and
  \<open>domain.startswith('www.')\<close> raises \<open>TypeError\<close>.
\<close>

definition is_trusted_domain_try :: "runtime \<Rightarrow> pyobj \<Rightarrow> py_error + (bool \<times> pystr)" where
  "is_trusted_domain_try env url =
     (case url of
        PyNone \<Rightarrow> Inl TypeError
      | Str u \<Rightarrow>
          (case urlparse env u of
             Inl e \<Rightarrow> Inl e
           | Inr parsed \<Rightarrow>
               (let domain = normalize_domain env (netloc parsed) in
                case find (domain_matches domain) TRUSTED_DOMAINS of
                  Some trusted \<Rightarrow> Inr (True, str ''Major trusted domain: '' @ trusted)
                | None \<Rightarrow>
               (case find (domain_matches domain) MALAYSIAN_EDU_DOMAINS of
                  Some edu_domain \<Rightarrow>
                    Inr (True, str ''Malaysian educational institution: '' @ edu_domain)
                | None \<Rightarrow>
               (case find (\<lambda>pattern. re_search (word_char env) (snd pattern) domain)
                       TRUSTED_TLD_PATTERNS of
                  Some pattern \<Rightarrow>
                    Inr (True, str ''Educational/Government domain pattern: '' @ fst pattern)
                | None \<Rightarrow>
                  if endswith (str ''.gov'') domain \<or> endswith (str ''.mil'') domain
                  then Inr (True, str ''Government domain'')
                  else if endswith (str ''.edu'') domain
                  then Inr (True, str ''Educational domain'')
                  else if contains (str ''.ac.'') domain
                  then Inr (True, str ''Academic domain'')
                  else if list_ex (\<lambda>keyword. contains keyword domain) university_keywords
                          \<and> \<not> list_ex (\<lambda>suspicious. contains suspicious domain) edu_blacklist
                  then Inr (True, str ''Educational-sounding domain'')
                  else Inr (False, str ''Not in trusted lists''))))))"

definition is_trusted_domain :: "runtime \<Rightarrow> pyobj \<Rightarrow> py_error + (bool \<times> pystr)" where
  "is_trusted_domain env url =
     try_except (is_trusted_domain_try env url) (\<lambda>e. Inr (False, str ''Error in domain check''))"

subsection \<open>\<open>predict_with_rules\<close>\<close>

datatype label = Safe | Phishing

type_synonym verdict = "label \<times> real \<times> int"

text \<open>\<open>\b(?:[0-9]{1,3}\.){3}[0-9]{1,3}\b\<close>\<close>

definition IP_PATTERN :: regex where
  "IP_PATTERN =
     seq [Wb, rep3 (Cat (rep1to3 (Cls digit09)) (Lit (str ''.''))), rep1to3 (Cls digit09), Wb]"

definition suspicious_tlds :: "pystr list" where
  "suspicious_tlds = map str [''.tk'', ''.ml'', ''.ga'', ''.cf'', ''.click'', ''.download'']"

text \<open>\<open>special_chars / max(url_length, 1)\<close>\<close>

definition special_char_ratio :: "real \<Rightarrow> real \<Rightarrow> py_error + real" where
  "special_char_ratio special_chars url_length = py_truediv special_chars (max url_length 1)"

text \<open>
  The accumulation of \<open>score\<close>, from \<open>score = 0\<close> down to the last penalty. The feature
  \<open>Suspicious_Keywords\<close> is read into \<open>keyword_count\<close> (the source reuses the name of
  the keyword list). \<open>url.lower()\<close> is the first use of \<open>url\<close> as a string.
\<close>

definition rule_score :: "runtime \<Rightarrow> features \<Rightarrow> pyobj \<Rightarrow> py_error + int" where
  "rule_score env features url =
     (let score = 0;
          url_length = dict_get features ''URL_Length'' 0;
          special_chars = dict_get features ''Special_Chars'' 0;
          keyword_count = dict_get features ''Suspicious_Keywords'' 0;
          has_https = dict_get features ''Has_HTTPS'' 1;
          num_subdomains = dict_get features ''Num_Subdomains'' 0;
          score = (if url_length > 150 then score + 30
                   else if url_length > 100 then score + 20
                   else if url_length > 80 then score + 10
                   else score)
      in case special_char_ratio special_chars url_length of
           Inl e \<Rightarrow> Inl e
         | Inr ratio \<Rightarrow>
             (let score = (if ratio > 0.4 then score + 25
                           else if special_chars > 20 then score + 20
                           else if special_chars > 15 then score + 10
                           else score);
                  score = (if keyword_count \<ge> 4 then score + 40
                           else if keyword_count \<ge> 3 then score + 30
                           else if keyword_count \<ge> 2 then score + 20
                           else if keyword_count \<ge> 1 then score + 10
                           else score);
                  score = (if has_https = 0 then score + 20 else score);
                  score = (if num_subdomains > 6 then score + 20
                           else if num_subdomains > 4 then score + 10
                           else score)
              in case url of
                   PyNone \<Rightarrow> Inl AttributeError
                 | Str u \<Rightarrow>
                     (let url_lower = str_lower env u;
                          score = (if re_search (word_char env) IP_PATTERN u
                                   then score + 25 else score);
                          score = (if list_ex (\<lambda>tld. contains tld url_lower) suspicious_tlds
                                   then score + 15 else score);
                          score = (if list_ex (\<lambda>c. c > 127) u then score + 15 else score)
                      in Inr score)))"

definition predict_with_rules :: "runtime \<Rightarrow> features \<Rightarrow> pyobj \<Rightarrow> py_error + verdict" where
  "predict_with_rules env features url =
     (case is_trusted_domain env url of
        Inl e \<Rightarrow> Inl e
      | Inr (is_trusted, reason) \<Rightarrow>
          if is_trusted then Inr (Safe, 98, 2)
          else
            (case rule_score env features url of
               Inl e \<Rightarrow> Inl e
             | Inr score \<Rightarrow>
                 (let risk_score = min score 100
                  in if risk_score \<ge> 70
                     then Inr (Phishing, min 95 (real_of_int risk_score), risk_score)
                     else if risk_score \<ge> 50
                     then Inr (Safe, min 70 (real_of_int (100 - risk_score)), risk_score)
                     else Inr (Safe, min 95 (real_of_int (100 - risk_score + 10)), risk_score))))"

subsection \<open>\<open>predict_with_xgboost\<close>\<close>

text \<open>\<open>[features[name] for name in self.feature_names]\<close>\<close>

fun feature_row :: "features \<Rightarrow> string list \<Rightarrow> py_error + real list" where
  "feature_row features [] = Inr []"
| "feature_row features (name # names) =
     (case dict_item features name of
        Inl e \<Rightarrow> Inl e
      | Inr v \<Rightarrow>
          (case feature_row features names of
             Inl e \<Rightarrow> Inl e
           | Inr vs \<Rightarrow> Inr (v # vs)))"

text \<open>
  The body of the \<open>try\<close>. \<open>predict\<close> on a \<open>None\<close> model raises \<open>AttributeError\<close>.
  The comparisons, products and differences on the probability are those of the
  runtime; \<open>confidence = float(...)\<close> keeps the value of the product and
  \<open>risk_score = int(...)\<close> truncates it.
\<close>

definition predict_with_xgboost_try ::
  "runtime \<Rightarrow> predictor \<Rightarrow> features \<Rightarrow> pyobj \<Rightarrow> py_error + verdict" where
  "predict_with_xgboost_try env self features url =
     (if \<not> xgboost_installed env then Inl ImportError
      else
        (case is_trusted_domain env url of
           Inl e \<Rightarrow> Inl e
         | Inr (is_trusted, reason) \<Rightarrow>
             if is_trusted then Inr (Safe, 97, 3)
             else
               (case feature_row features feature_names of
                  Inl e \<Rightarrow> Inl e
                | Inr feature_array \<Rightarrow>
                    (case model self of
                       None \<Rightarrow> Inl AttributeError
                     | Some booster \<Rightarrow>
                         (case booster feature_array of
                            Inl e \<Rightarrow> Inl e
                          | Inr phishing_probability \<Rightarrow>
                              if np_greater env phishing_probability 0.7
                              then Inr (Phishing,
                                        np_multiply env phishing_probability 100,
                                        py_int (np_multiply env phishing_probability 100))
                              else if np_greater env phishing_probability 0.3
                              then Inr (Safe,
                                        np_multiply env (np_subtract env 1 phishing_probability) 85,
                                        py_int (np_multiply env phishing_probability 100))
                              else Inr (Safe,
                                        np_multiply env (np_subtract env 1 phishing_probability) 100,
                                        py_int (np_multiply env phishing_probability 100)))))))"

definition predict_with_xgboost ::
  "runtime \<Rightarrow> predictor \<Rightarrow> features \<Rightarrow> pyobj \<Rightarrow> py_error + verdict" where
  "predict_with_xgboost env self features url =
     try_except (predict_with_xgboost_try env self features url)
       (\<lambda>e. predict_with_rules env features url)"

subsection \<open>\<open>predict\<close>\<close>

text \<open>
  The body of the \<open>try\<close>. The second call of \<open>is_trusted_domain\<close> only feeds the log
  line.
\<close>

definition predict_try ::
  "runtime \<Rightarrow> predictor \<Rightarrow> pyobj \<Rightarrow> py_error + (label \<times> real \<times> int \<times> features)" where
  "predict_try env self url =
     (case extract_features env url of
        Inl e \<Rightarrow> Inl e
      | Inr features \<Rightarrow>
          (case (if model_loaded self \<and> model self \<noteq> None
                 then predict_with_xgboost env self features url
                 else predict_with_rules env features url) of
             Inl e \<Rightarrow> Inl e
           | Inr (label, confidence, risk_score) \<Rightarrow>
               (case is_trusted_domain env url of
                  Inl e \<Rightarrow> Inl e
                | Inr (is_trusted, reason) \<Rightarrow> Inr (label, confidence, risk_score, features))))"

definition predict ::
  "runtime \<Rightarrow> predictor \<Rightarrow> pyobj \<Rightarrow> py_error + (label \<times> real \<times> int \<times> features)" where
  "predict env self url =
     try_except (predict_try env self url)
       (\<lambda>e. case extract_features env url of
               Inl e' \<Rightarrow> Inl e'
             | Inr default_features \<Rightarrow> Inr (Safe, 75, 25, default_features))"

text \<open>\<open>predict_url\<close>: the global predictor, built on first use.\<close>

definition predict_url ::
  "runtime \<Rightarrow> pyobj \<Rightarrow> py_error + (label \<times> real \<times> int \<times> features)" where
  "predict_url env url = predict env (PhishingPredictor env) url"

section \<open>Closed forms and fixtures\<close>

text \<open>
  The penalties that \<open>rule_score\<close> adds up, as one sum: those read from the feature
  dictionary and those read from the URL text. Lemma \<open>rule_score_Str\<close> below proves
  that the accumulation of the source computes this sum.
\<close>

definition feature_penalties :: "features \<Rightarrow> int" where
  "feature_penalties features =
     (let url_length = dict_get features ''URL_Length'' 0;
          special_chars = dict_get features ''Special_Chars'' 0;
          keyword_count = dict_get features ''Suspicious_Keywords'' 0;
          has_https = dict_get features ''Has_HTTPS'' 1;
          num_subdomains = dict_get features ''Num_Subdomains'' 0
      in (if url_length > 150 then 30 else if url_length > 100 then 20
          else if url_length > 80 then 10 else 0)
       + (if special_chars / max url_length 1 > 0.4 then 25
          else if special_chars > 20 then 20 else if special_chars > 15 then 10 else 0)
       + (if keyword_count \<ge> 4 then 40 else if keyword_count \<ge> 3 then 30
          else if keyword_count \<ge> 2 then 20 else if keyword_count \<ge> 1 then 10 else 0)
       + (if has_https = 0 then 20 else 0)
       + (if num_subdomains > 6 then 20 else if num_subdomains > 4 then 10 else 0))"

definition url_penalties :: "runtime \<Rightarrow> pystr \<Rightarrow> int" where
  "url_penalties env u =
     (if re_search (word_char env) IP_PATTERN u then 25 else 0)
   + (if list_ex (\<lambda>tld. contains tld (str_lower env u)) suspicious_tlds then 15 else 0)
   + (if list_ex (\<lambda>c. c > 127) u then 15 else 0)"

text \<open>A booster that answers one fixed probability, and a runtime that loads a booster.\<close>

definition const_booster :: "real \<Rightarrow> booster" where
  "const_booster p = (\<lambda>row. Inr p)"

definition with_model :: "runtime \<Rightarrow> booster \<Rightarrow> runtime" where
  "with_model env b = env\<lparr>path_exists := True, xgboost_installed := True, load_model := Inr b\<rparr>"

section \<open>Properties\<close>

subsection \<open>Totality of the guarded functions\<close>

lemma is_trusted_domain_total: "\<exists>t reason. is_trusted_domain env url = Inr (t, reason)"
  by (cases "is_trusted_domain_try env url") (auto simp: is_trusted_domain_def try_except_def)

lemma extract_features_total: "\<exists>f. extract_features env url = Inr f"
  by (cases "extract_features_try env url") (auto simp: extract_features_def try_except_def)

lemma special_char_ratio_Inr:
  "special_char_ratio special_chars url_length = Inr (special_chars / max url_length 1)"
  by (simp add: special_char_ratio_def py_truediv_def)

lemma if_add_last: "(if c then (s::int) + a else s) = s + (if c then a else 0)"
  by simp

lemma if_add_next: "(if c then (s::int) + a else s + b) = s + (if c then a else b)"
  by simp

lemma rule_score_Str:
  "rule_score env features (Str u) = Inr (feature_penalties features + url_penalties env u)"
  unfolding rule_score_def special_char_ratio_Inr feature_penalties_def url_penalties_def
  apply (simp only: if_add_last if_add_next)
  apply (simp only: Let_def sum.case pyobj.case add_0 add.assoc)
  done

lemma rule_score_PyNone: "rule_score env features PyNone = Inl AttributeError"
  by (simp add: rule_score_def special_char_ratio_Inr Let_def)

lemma predict_with_rules_trusted:
  "is_trusted_domain env url = Inr (True, reason) \<Longrightarrow> predict_with_rules env features url = Inr (Safe, 98, 2)"
  by (simp add: predict_with_rules_def)

lemma predict_with_rules_untrusted:
  "is_trusted_domain env (Str u) = Inr (False, reason) \<Longrightarrow>
   predict_with_rules env features (Str u) =
     (let risk_score = min (feature_penalties features + url_penalties env u) 100
      in if risk_score \<ge> 70 then Inr (Phishing, min 95 (real_of_int risk_score), risk_score)
         else if risk_score \<ge> 50 then Inr (Safe, min 70 (real_of_int (100 - risk_score)), risk_score)
         else Inr (Safe, min 95 (real_of_int (100 - risk_score + 10)), risk_score))"
  by (simp add: predict_with_rules_def rule_score_Str)

lemma predict_with_rules_total: "\<exists>v. predict_with_rules env features (Str u) = Inr v"
proof -
  obtain t reason where tr: "is_trusted_domain env (Str u) = Inr (t, reason)"
    using is_trusted_domain_total by blast
  show ?thesis
  proof (cases t)
    case True
    with tr show ?thesis by (simp add: predict_with_rules_trusted)
  next
    case False
    with tr show ?thesis by (simp add: predict_with_rules_untrusted Let_def)
  qed
qed

text \<open>
  Claim C10. The special-character density is \<open>Special_Chars / max(URL_Length, 1)\<close>: the
  divisor is never zero, so the division returns a value for every pair of features, also
  when \<open>URL_Length\<close> is 0, and the accumulation of the score returns for every URL string,
  the empty one included.
\<close>

theorem ratio_division_total:
  "special_char_ratio special_chars url_length = Inr (special_chars / max url_length 1)
   \<and> max url_length 1 \<noteq> 0
   \<and> special_char_ratio special_chars 0 = Inr special_chars
   \<and> (\<exists>score. rule_score env features (Str u) = Inr score)"
  by (simp add: special_char_ratio_Inr rule_score_Str)

lemma dict_get_Cons: "dict_get ((k, v) # d) k' dflt = (if k = k' then v else dict_get d k' dflt)"
  by (simp add: dict_get_def)

lemma dict_get_missing: "map_of d k = None \<Longrightarrow> dict_get d k dflt = dflt"
  by (simp add: dict_get_def)

lemma rule_score_cong:
  assumes "dict_get f ''URL_Length'' 0 = dict_get g ''URL_Length'' 0"
    and "dict_get f ''Special_Chars'' 0 = dict_get g ''Special_Chars'' 0"
    and "dict_get f ''Suspicious_Keywords'' 0 = dict_get g ''Suspicious_Keywords'' 0"
    and "dict_get f ''Has_HTTPS'' 1 = dict_get g ''Has_HTTPS'' 1"
    and "dict_get f ''Num_Subdomains'' 0 = dict_get g ''Num_Subdomains'' 0"
  shows "rule_score env f url = rule_score env g url"
  unfolding rule_score_def by (simp only: assms)

text \<open>
  Claim C9. A missing \<open>Has_HTTPS\<close> is read as 1, so the scorer behaves as if HTTPS were
  present and adds no +20; every other missing feature is read as 0. An empty feature
  dictionary therefore brings no feature penalty: only the penalties read from the URL
  text remain, whereas \<open>Has_HTTPS = 0\<close> alone costs 20.
\<close>

theorem missing_feature_defaults:
  "(map_of features ''Has_HTTPS'' = None \<longrightarrow>
      rule_score env features url = rule_score env ((''Has_HTTPS'', 1) # features) url)
   \<and> (k \<in> {''URL_Length'', ''Special_Chars'', ''Suspicious_Keywords'', ''Num_Subdomains''}
        \<and> map_of features k = None \<longrightarrow>
      rule_score env features url = rule_score env ((k, 0) # features) url)
   \<and> feature_penalties [] = 0
   \<and> rule_score env [] (Str u) = Inr (url_penalties env u)
   \<and> rule_score env [(''Has_HTTPS'', 0)] (Str u) = Inr (20 + url_penalties env u)"
proof (intro conjI impI)
  assume "map_of features ''Has_HTTPS'' = None"
  then show "rule_score env features url = rule_score env ((''Has_HTTPS'', 1) # features) url"
    by (intro rule_score_cong) (simp_all add: dict_get_Cons dict_get_missing)
next
  assume "k \<in> {''URL_Length'', ''Special_Chars'', ''Suspicious_Keywords'', ''Num_Subdomains''}
        \<and> map_of features k = None"
  then show "rule_score env features url = rule_score env ((k, 0) # features) url"
    by (intro rule_score_cong) (auto simp add: dict_get_Cons dict_get_missing)
next
  show "feature_penalties [] = 0"
    by (simp add: feature_penalties_def dict_get_def)
  then show "rule_score env [] (Str u) = Inr (url_penalties env u)"
    by (simp add: rule_score_Str)
next
  show "rule_score env [(''Has_HTTPS'', 0)] (Str u) = Inr (20 + url_penalties env u)"
    by (simp add: rule_score_Str feature_penalties_def dict_get_def)
qed

text \<open>
  Claim C2. On a URL that the trust matcher does not trust, the rule scorer returns
  \<open>risk_score = min(score, 100)\<close>; from 70 on the label is Phishing with confidence
  \<open>min(95, risk_score)\<close>; from 50 to 69 it is Safe with confidence
  \<open>min(70, 100 - risk_score)\<close>; below 50 it is Safe with confidence
  \<open>min(95, 100 - risk_score + 10)\<close>. A risk score of exactly 70 is Phishing, one of 69
  is Safe.
\<close>

theorem rule_verdict_bands:
  assumes "is_trusted_domain env (Str u) = Inr (False, reason)"
  shows "\<exists>score label confidence risk_score.
     rule_score env features (Str u) = Inr score \<and>
     predict_with_rules env features (Str u) = Inr (label, confidence, risk_score) \<and>
     risk_score = min score 100 \<and>
     (if risk_score \<ge> 70 then label = Phishing \<and> confidence = min 95 (real_of_int risk_score)
      else if risk_score \<ge> 50
      then label = Safe \<and> confidence = min 70 (real_of_int (100 - risk_score))
      else label = Safe \<and> confidence = min 95 (real_of_int (100 - risk_score + 10))) \<and>
     (risk_score = 70 \<longrightarrow> label = Phishing) \<and> (risk_score = 69 \<longrightarrow> label = Safe)"
  using assms by (auto simp add: predict_with_rules_untrusted rule_score_Str Let_def)

lemma feature_penalties_keyword_mono:
  assumes "k \<le> k'"
  shows "feature_penalties ((''Suspicious_Keywords'', k) # features)
           \<le> feature_penalties ((''Suspicious_Keywords'', k') # features)"
  using assms by (simp add: feature_penalties_def dict_get_Cons Let_def)

text \<open>
  Claim C4, as amended. With the URL string and every other feature held fixed, a larger
  value of the \<open>Suspicious_Keywords\<close> feature never gives a smaller \<open>risk_score\<close>.
\<close>

theorem keyword_feature_monotone:
  assumes "k \<le> k'"
  shows "\<exists>label confidence risk_score label' confidence' risk_score'.
     predict_with_rules env ((''Suspicious_Keywords'', k) # features) (Str u)
       = Inr (label, confidence, risk_score) \<and>
     predict_with_rules env ((''Suspicious_Keywords'', k') # features) (Str u)
       = Inr (label', confidence', risk_score') \<and>
     risk_score \<le> risk_score'"
proof -
  obtain t reason where tr: "is_trusted_domain env (Str u) = Inr (t, reason)"
    using is_trusted_domain_total by blast
  show ?thesis
  proof (cases t)
    case True
    with tr show ?thesis by (simp add: predict_with_rules_trusted)
  next
    case False
    have "feature_penalties ((''Suspicious_Keywords'', k) # features) + url_penalties env u
        \<le> feature_penalties ((''Suspicious_Keywords'', k') # features) + url_penalties env u"
      using feature_penalties_keyword_mono [OF assms, of features] by simp
    with tr False show ?thesis
      by (auto simp add: predict_with_rules_untrusted Let_def)
  qed
qed


subsection \<open>Trust override\<close>

lemma PhishingPredictor_loaded:
  "model_loaded (PhishingPredictor env) \<Longrightarrow>
   xgboost_installed env \<and> model (PhishingPredictor env) \<noteq> None"
  by (auto simp: PhishingPredictor_def load_xgboost_model_def split: if_splits sum.splits)

lemma predict_with_xgboost_trusted:
  "xgboost_installed env \<Longrightarrow> is_trusted_domain env url = Inr (True, reason) \<Longrightarrow>
   predict_with_xgboost env self features url = Inr (Safe, 97, 3)"
  by (simp add: predict_with_xgboost_def predict_with_xgboost_try_def try_except_def)

text \<open>
  Claim C1. When the trust matcher trusts the URL, the rule scorer returns Safe, 98.0, 2
  and the model scorer (with \<open>xgboost\<close> importable, as it is whenever a model was loaded)
  returns Safe, 97.0, 3, whatever the features and the booster are; \<open>predict_url\<close>
  returns the first triple when no model is loaded and the second when one is.
\<close>

theorem trust_override_constants:
  assumes "is_trusted_domain env url = Inr (True, reason)"
  shows "predict_with_rules env features url = Inr (Safe, 98, 2)
     \<and> (xgboost_installed env \<longrightarrow>
          predict_with_xgboost env self features url = Inr (Safe, 97, 3))
     \<and> (\<exists>f. extract_features env url = Inr f \<and>
          predict_url env url =
            Inr (if model_loaded (PhishingPredictor env) then (Safe, 97, 3, f)
                 else (Safe, 98, 2, f)))"
proof (intro conjI impI)
  show "predict_with_rules env features url = Inr (Safe, 98, 2)"
    using assms by (rule predict_with_rules_trusted)
next
  assume "xgboost_installed env"
  then show "predict_with_xgboost env self features url = Inr (Safe, 97, 3)"
    using assms by (rule predict_with_xgboost_trusted)
next
  obtain f where f: "extract_features env url = Inr f"
    using extract_features_total by blast
  have "predict_url env url =
          Inr (if model_loaded (PhishingPredictor env) then (Safe, 97, 3, f) else (Safe, 98, 2, f))"
  proof (cases "model_loaded (PhishingPredictor env)")
    case True
    then have "xgboost_installed env" and "model (PhishingPredictor env) \<noteq> None"
      using PhishingPredictor_loaded by blast+
    with True f assms show ?thesis
      by (simp add: predict_url_def predict_def predict_try_def try_except_def
          predict_with_xgboost_trusted)
  next
    case False
    with f assms show ?thesis
      by (simp add: predict_url_def predict_def predict_try_def try_except_def
          predict_with_rules_trusted)
  qed
  with f show "\<exists>f. extract_features env url = Inr f \<and>
          predict_url env url =
            Inr (if model_loaded (PhishingPredictor env) then (Safe, 97, 3, f)
                 else (Safe, 98, 2, f))"
    by blast
qed

subsection \<open>Model scorer\<close>

text \<open>
  Claim C3, as amended. On a URL that is not trusted, with a loaded booster that answers
  a probability \<open>p\<close> in \<open>[0, 1]\<close>, the model scorer returns, in the float arithmetic of
  the runtime: Phishing with confidence \<open>p * 100\<close> when \<open>p > 0.7\<close>; otherwise Safe with
  confidence \<open>(1 - p) * 85\<close> when \<open>p > 0.3\<close>; otherwise Safe with confidence
  \<open>(1 - p) * 100\<close>. In all three bands the risk score is \<open>int(p * 100)\<close>: the product
  truncated towards zero, not rounded. Where the arithmetic is exact, the bands and
  confidences are those of the real numbers and the risk score is the floor of
  \<open>p * 100\<close>.
\<close>

theorem model_verdict_bands:
  assumes "xgboost_installed env"
    and "is_trusted_domain env url = Inr (False, reason)"
    and "feature_row features feature_names = Inr row"
    and "model self = Some b"
    and "b row = Inr p"
    and "0 \<le> p" and "p \<le> 1"
  shows "predict_with_xgboost env self features url =
       Inr (if np_greater env p 0.7
            then (Phishing, np_multiply env p 100, py_int (np_multiply env p 100))
            else if np_greater env p 0.3
            then (Safe, np_multiply env (np_subtract env 1 p) 85,
                  py_int (np_multiply env p 100))
            else (Safe, np_multiply env (np_subtract env 1 p) 100,
                  py_int (np_multiply env p 100)))
     \<and> (np_greater env = (\<lambda>a b. a > b) \<and> np_multiply env = (\<lambda>a b. a * b)
          \<and> np_subtract env = (\<lambda>a b. a - b) \<longrightarrow>
        predict_with_xgboost env self features url =
          Inr (if p > 0.7 then (Phishing, p * 100, \<lfloor>p * 100\<rfloor>)
               else if p > 0.3 then (Safe, (1 - p) * 85, \<lfloor>p * 100\<rfloor>)
               else (Safe, (1 - p) * 100, \<lfloor>p * 100\<rfloor>)))"
proof (intro conjI impI)
  show general: "predict_with_xgboost env self features url =
       Inr (if np_greater env p 0.7
            then (Phishing, np_multiply env p 100, py_int (np_multiply env p 100))
            else if np_greater env p 0.3
            then (Safe, np_multiply env (np_subtract env 1 p) 85,
                  py_int (np_multiply env p 100))
            else (Safe, np_multiply env (np_subtract env 1 p) 100,
                  py_int (np_multiply env p 100)))"
    using assms
    by (simp add: predict_with_xgboost_def predict_with_xgboost_try_def try_except_def)
  assume exact: "np_greater env = (\<lambda>a b. a > b) \<and> np_multiply env = (\<lambda>a b. a * b)
          \<and> np_subtract env = (\<lambda>a b. a - b)"
  from \<open>0 \<le> p\<close> have "py_int (p * 100) = \<lfloor>p * 100\<rfloor>"
    by (simp add: py_int_def)
  with general exact show "predict_with_xgboost env self features url =
          Inr (if p > 0.7 then (Phishing, p * 100, \<lfloor>p * 100\<rfloor>)
               else if p > 0.3 then (Safe, (1 - p) * 85, \<lfloor>p * 100\<rfloor>)
               else (Safe, (1 - p) * 100, \<lfloor>p * 100\<rfloor>))"
    by simp
qed

subsection \<open>Feature extraction\<close>

lemma extract_features_try_shape:
  "extract_features_try env url = Inr f \<Longrightarrow>
   map fst f = feature_names \<and> list_all (\<lambda>kv. 0 \<le> snd kv) f"
  by (auto simp: extract_features_try_def feature_names_def Let_def
      split: pyobj.splits sum.splits)

text \<open>
  Claim C6. For every string, \<open>extract_features\<close> returns (it does not raise) a
  dictionary whose keys are exactly the five feature names, in their order, with every
  value at least 0; when \<open>urlparse\<close> raises, the dictionary is the all-zero one.
\<close>

theorem extract_features_shape:
  "\<exists>f. extract_features env (Str s) = Inr f \<and> map fst f = feature_names
     \<and> list_all (\<lambda>kv. 0 \<le> snd kv) f
     \<and> ((\<exists>e. urlparse env s = Inl e) \<longrightarrow> f = zero_features)"
proof (cases "extract_features_try env (Str s)")
  case (Inl e)
  then show ?thesis
    by (simp add: extract_features_def try_except_def zero_features_def feature_names_def)
next
  case (Inr f)
  then have "\<not> (\<exists>e. urlparse env s = Inl e)"
    by (auto simp: extract_features_try_def)
  with Inr extract_features_try_shape [OF Inr] show ?thesis
    by (simp add: extract_features_def try_except_def)
qed

subsection \<open>The orchestrator\<close>

text \<open>
  Claim C7. \<open>predict\<close> returns a value for every string; and whenever the body of its
  \<open>try\<close> raises, on any argument, it returns Safe, 75.0, 25 with the features extracted
  again.
\<close>

theorem predict_never_raises:
  "(\<exists>v. predict env self (Str s) = Inr v)
   \<and> (predict_try env self url = Inl e \<longrightarrow>
        (\<exists>f. extract_features env url = Inr f \<and> predict env self url = Inr (Safe, 75, 25, f)))"
proof (intro conjI impI)
  obtain f where f: "extract_features env (Str s) = Inr f"
    using extract_features_total by blast
  show "\<exists>v. predict env self (Str s) = Inr v"
    by (cases "predict_try env self (Str s)") (auto simp add: predict_def try_except_def f)
next
  assume raised: "predict_try env self url = Inl e"
  obtain f where f: "extract_features env url = Inr f"
    using extract_features_total by blast
  with raised show "\<exists>f. extract_features env url = Inr f
      \<and> predict env self url = Inr (Safe, 75, 25, f)"
    by (simp add: predict_def try_except_def)
qed

text \<open>
  On a string neither scorer raises, so the body of the \<open>try\<close> returns: the handler of
  \<open>predict\<close> only serves arguments that are not strings.
\<close>

lemma predict_with_xgboost_total: "\<exists>v. predict_with_xgboost env self features (Str u) = Inr v"
  using predict_with_rules_total [of env features u]
  by (cases "predict_with_xgboost_try env self features (Str u)")
     (auto simp add: predict_with_xgboost_def try_except_def)

lemma predict_try_total_on_strings: "\<exists>v. predict_try env self (Str u) = Inr v"
proof -
  obtain f where f: "extract_features env (Str u) = Inr f"
    using extract_features_total by blast
  obtain t reason where tr: "is_trusted_domain env (Str u) = Inr (t, reason)"
    using is_trusted_domain_total by blast
  obtain l c r where x: "predict_with_xgboost env self f (Str u) = Inr (l, c, r)"
    using predict_with_xgboost_total by (metis prod_cases3)
  obtain l' c' r' where y: "predict_with_rules env f (Str u) = Inr (l', c', r')"
    using predict_with_rules_total by (metis prod_cases3)
  show ?thesis
    by (simp add: predict_try_def f tr x y)
qed

subsection \<open>Educational-sounding hosts\<close>


section \<open>Evaluation at concrete inputs\<close>

lemmas string_eval = str_def count_char_def endswith_def split_colon_first_def
  ascii_lower_def in_class_def is_word_def next_char_def re_search_def rep2_def rep3_def
  rep1to3_def lower_az_def digit09_def raw_def

lemmas urlparse_eval = cpython_urlparse_def split_scheme_def ascii_alpha_def scheme_char_def

lemma cpython_sel:
  "urlparse cpython = cpython_urlparse" "str_lower cpython = ascii_lower"
  "unicode_alnum cpython = (\<lambda>c. False)" "path_exists cpython = False"
  "xgboost_installed cpython = False"
  "np_greater cpython = (\<lambda>a b. a > b)" "np_multiply cpython = (\<lambda>a b. a * b)"
  "np_subtract cpython = (\<lambda>a b. a - b)"
  by (simp_all add: cpython_def)

lemma with_model_sel:
  "urlparse (with_model env b) = urlparse env" "str_lower (with_model env b) = str_lower env"
  "unicode_alnum (with_model env b) = unicode_alnum env" "path_exists (with_model env b) = True"
  "xgboost_installed (with_model env b) = True" "load_model (with_model env b) = Inr b"
  "np_greater (with_model env b) = np_greater env"
  "np_multiply (with_model env b) = np_multiply env"
  "np_subtract (with_model env b) = np_subtract env"
  by (simp_all add: with_model_def)

lemma eat_lit_startswith: "eat_lit l prev s \<noteq> [] \<Longrightarrow> startswith l s"
  by (induction l prev s rule: eat_lit.induct) (auto split: if_splits)

lemma search_from_Lit_contains: "search_from w (Cat (Lit l) r) prev s \<Longrightarrow> contains l s"
proof (induction s arbitrary: prev)
  case Nil
  then have "eat_lit l prev [] \<noteq> []" by auto
  then have "startswith l []" by (rule eat_lit_startswith)
  then show ?case by (cases l) simp_all
next
  case (Cons x xs)
  show ?case
  proof (cases "rx_ends w (Cat (Lit l) r) prev (x # xs) \<noteq> []")
    case True
    then have "eat_lit l prev (x # xs) \<noteq> []" by auto
    then show ?thesis using eat_lit_startswith by simp
  next
    case False
    with Cons.prems have "search_from w (Cat (Lit l) r) (Some x) xs" by simp
    then show ?thesis using Cons.IH by simp
  qed
qed

lemma re_search_Lit_absent: "\<not> contains l s \<Longrightarrow> re_search w (Cat (Lit l) r) s = False"
  using search_from_Lit_contains by (auto simp: re_search_def)

lemma rx_Cat_nonempty: "rx_ends w (Cat a b) prev s \<noteq> [] \<Longrightarrow> rx_ends w a prev s \<noteq> []"
  by (cases "rx_ends w a prev s") simp_all

lemma rx_Cat_Wb: "rx_ends w (Cat Wb r) prev s \<noteq> [] \<Longrightarrow> rx_ends w r prev s \<noteq> []"
  by (cases "is_word w prev \<noteq> is_word w (next_char s)") simp_all

lemma rx_Cls_first:
  "rx_ends w (Cls rs) prev s \<noteq> [] \<Longrightarrow> (case s of [] \<Rightarrow> False | x # xs \<Rightarrow> in_class rs x)"
  by (cases s) (simp_all split: if_splits)

lemma rx_rep1to3_Cls:
  assumes "rx_ends w (rep1to3 (Cls rs)) prev s \<noteq> []"
  shows "case s of [] \<Rightarrow> False | x # xs \<Rightarrow> in_class rs x"
proof -
  let ?c = "Cls rs"
  from assms have "rx_ends w (Cat ?c (Cat ?c ?c)) prev s \<noteq> []
      \<or> rx_ends w (Cat ?c ?c) prev s \<noteq> [] \<or> rx_ends w ?c prev s \<noteq> []"
    unfolding rep1to3_def by (simp only: rx_ends.simps append_is_Nil_conv) blast
  then have "rx_ends w ?c prev s \<noteq> []"
    using rx_Cat_nonempty by blast
  then show ?thesis by (rule rx_Cls_first)
qed

lemma IP_PATTERN_first_digit:
  assumes "rx_ends w IP_PATTERN prev s \<noteq> []"
  shows "case s of [] \<Rightarrow> False | x # xs \<Rightarrow> in_class digit09 x"
proof -
  let ?d = "rep1to3 (Cls digit09)"
  let ?X = "Cat ?d (Lit (str ''.''))"
  have ip: "IP_PATTERN = Cat Wb (Cat (rep3 ?X) (Cat ?d Wb))"
    by (simp add: IP_PATTERN_def)
  from assms have "rx_ends w (Cat (rep3 ?X) (Cat ?d Wb)) prev s \<noteq> []"
    unfolding ip by (rule rx_Cat_Wb)
  then have "rx_ends w (rep3 ?X) prev s \<noteq> []"
    by (rule rx_Cat_nonempty)
  then have "rx_ends w ?X prev s \<noteq> []"
    unfolding rep3_def by (rule rx_Cat_nonempty)
  then have "rx_ends w ?d prev s \<noteq> []"
    by (rule rx_Cat_nonempty)
  then show ?thesis by (rule rx_rep1to3_Cls)
qed

lemma search_from_IP_digit: "search_from w IP_PATTERN prev s \<Longrightarrow> list_ex (in_class digit09) s"
proof (induction s arbitrary: prev)
  case Nil
  then show ?case using IP_PATTERN_first_digit [of w prev "[]"] by simp
next
  case (Cons x xs)
  then show ?case using IP_PATTERN_first_digit [of w prev "x # xs"] by auto
qed

lemma re_search_IP_no_digit: "\<not> list_ex (in_class digit09) s \<Longrightarrow> re_search w IP_PATTERN s = False"
  using search_from_IP_digit by (auto simp: re_search_def)

lemma is_trusted_domain_False:
  assumes "urlparse env u = Inr parsed"
    and "normalize_domain env (netloc parsed) = d"
    and "find (domain_matches d) TRUSTED_DOMAINS = None"
    and "find (domain_matches d) MALAYSIAN_EDU_DOMAINS = None"
    and "find (\<lambda>pattern. re_search (word_char env) (snd pattern) d) TRUSTED_TLD_PATTERNS = None"
    and "\<not> endswith (str ''.gov'') d" and "\<not> endswith (str ''.mil'') d"
    and "\<not> endswith (str ''.edu'') d" and "\<not> contains (str ''.ac.'') d"
    and "\<not> list_ex (\<lambda>keyword. contains keyword d) university_keywords"
  shows "is_trusted_domain env (Str u) = Inr (False, str ''Not in trusted lists'')"
  using assms by (simp add: is_trusted_domain_def is_trusted_domain_try_def try_except_def)


lemma word_char_with_model: "word_char (with_model env b) = word_char env"
  by (rule ext) (simp add: word_char_def with_model_sel)

lemma normalize_domain_with_model: "normalize_domain (with_model env b) = normalize_domain env"
  by (rule ext) (simp add: normalize_domain_def with_model_sel)

lemma is_trusted_domain_with_model:
  "is_trusted_domain (with_model env b) url = is_trusted_domain env url"
  unfolding is_trusted_domain_def is_trusted_domain_try_def word_char_with_model
    normalize_domain_with_model with_model_sel
  by (rule refl)

lemma extract_features_with_model:
  "extract_features (with_model env b) url = extract_features env url"
  unfolding extract_features_def extract_features_try_def with_model_sel
  by (rule refl)

lemma PhishingPredictor_with_model:
  "PhishingPredictor (with_model env b) = \<lparr>model = Some b, model_loaded = True\<rparr>"
  by (simp add: PhishingPredictor_def load_xgboost_model_def with_model_sel)

lemma PhishingPredictor_cpython:
  "PhishingPredictor cpython = \<lparr>model = None, model_loaded = False\<rparr>"
  by (simp add: PhishingPredictor_def load_xgboost_model_def cpython_sel)

subsection \<open>\<open>http://a.io\<close>\<close>

lemma short_parse:
  "urlparse cpython (str ''http://a.io'') = Inr \<lparr>scheme = str ''http'', netloc = str ''a.io''\<rparr>"
  by (simp add: cpython_sel string_eval urlparse_eval Let_def)

lemma short_untrusted:
  "is_trusted_domain cpython (Str (str ''http://a.io'')) = Inr (False, str ''Not in trusted lists'')"
proof (rule is_trusted_domain_False [OF short_parse])
  let ?d = "str ''a.io''"
  show "normalize_domain cpython (netloc \<lparr>scheme = str ''http'', netloc = ?d\<rparr>) = ?d"
    by (simp add: normalize_domain_def prefixes_to_remove_def cpython_sel string_eval)
  show "find (domain_matches ?d) TRUSTED_DOMAINS = None"
    by (simp add: domain_matches_def TRUSTED_DOMAINS_def string_eval)
  show "find (domain_matches ?d) MALAYSIAN_EDU_DOMAINS = None"
    by (simp add: domain_matches_def MALAYSIAN_EDU_DOMAINS_def string_eval)
  show "find (\<lambda>pattern. re_search (word_char cpython) (snd pattern) ?d) TRUSTED_TLD_PATTERNS = None"
    by (simp add: TRUSTED_TLD_PATTERNS_def re_search_Lit_absent str_def)
  show "\<not> endswith (str ''.gov'') ?d" "\<not> endswith (str ''.mil'') ?d"
    "\<not> endswith (str ''.edu'') ?d" "\<not> contains (str ''.ac.'') ?d"
    by (simp_all add: string_eval)
  show "\<not> list_ex (\<lambda>keyword. contains keyword ?d) university_keywords"
    by (simp add: university_keywords_def string_eval)
qed

lemma short_url_penalties: "url_penalties cpython (str ''http://a.io'') = 0"
  by (simp add: url_penalties_def re_search_IP_no_digit suspicious_tlds_def cpython_sel
      str_def in_class_def digit09_def ascii_lower_def)

subsection \<open>\<open>https://google.com\<close>\<close>

lemma google_trusted:
  "is_trusted_domain cpython (Str (str ''https://google.com''))
     = Inr (True, str ''Major trusted domain: google.com'')"
  by (simp add: is_trusted_domain_def is_trusted_domain_try_def try_except_def
      normalize_domain_def prefixes_to_remove_def domain_matches_def TRUSTED_DOMAINS_def
      cpython_sel string_eval urlparse_eval Let_def)


lemma google_features:
  "extract_features cpython (Str (str ''https://google.com''))
     = Inr [(''URL_Length'', 18), (''Special_Chars'', 2), (''Num_Subdomains'', 0),
            (''Suspicious_Keywords'', 0), (''Has_HTTPS'', 1)]"
  by (simp add: extract_features_def extract_features_try_def try_except_def
      suspicious_keywords_def cpython_sel string_eval urlparse_eval Let_def)

subsection \<open>\<open>https://paypal-secure-login.suspicious-domain.tk\<close>\<close>

lemma paypal_parse:
  "urlparse cpython (str ''https://paypal-secure-login.suspicious-domain.tk'')
     = Inr \<lparr>scheme = str ''https'', netloc = str ''paypal-secure-login.suspicious-domain.tk''\<rparr>"
  by (simp add: cpython_sel string_eval urlparse_eval Let_def)

lemma paypal_untrusted:
  "is_trusted_domain cpython (Str (str ''https://paypal-secure-login.suspicious-domain.tk''))
     = Inr (False, str ''Not in trusted lists'')"
proof (rule is_trusted_domain_False [OF paypal_parse])
  let ?d = "str ''paypal-secure-login.suspicious-domain.tk''"
  show "normalize_domain cpython (netloc \<lparr>scheme = str ''https'', netloc = ?d\<rparr>) = ?d"
    by (simp add: normalize_domain_def prefixes_to_remove_def cpython_sel string_eval)
  show "find (domain_matches ?d) TRUSTED_DOMAINS = None"
    by (simp add: domain_matches_def TRUSTED_DOMAINS_def string_eval)
  show "find (domain_matches ?d) MALAYSIAN_EDU_DOMAINS = None"
    by (simp add: domain_matches_def MALAYSIAN_EDU_DOMAINS_def string_eval)
  show "find (\<lambda>pattern. re_search (word_char cpython) (snd pattern) ?d) TRUSTED_TLD_PATTERNS = None"
    by (simp add: TRUSTED_TLD_PATTERNS_def re_search_Lit_absent str_def)
  show "\<not> endswith (str ''.gov'') ?d" "\<not> endswith (str ''.mil'') ?d"
    "\<not> endswith (str ''.edu'') ?d" "\<not> contains (str ''.ac.'') ?d"
    by (simp_all add: string_eval)
  show "\<not> list_ex (\<lambda>keyword. contains keyword ?d) university_keywords"
    by (simp add: university_keywords_def string_eval)
qed

lemma paypal_features:
  "extract_features cpython (Str (str ''https://paypal-secure-login.suspicious-domain.tk''))
     = Inr [(''URL_Length'', 48), (''Special_Chars'', 5), (''Num_Subdomains'', 1),
            (''Suspicious_Keywords'', 3), (''Has_HTTPS'', 1)]"
  by (simp add: extract_features_def extract_features_try_def try_except_def
      suspicious_keywords_def cpython_sel string_eval urlparse_eval Let_def)

lemma paypal_url_penalties:
  "url_penalties cpython (str ''https://paypal-secure-login.suspicious-domain.tk'') = 15"
  by (simp add: url_penalties_def re_search_IP_no_digit suspicious_tlds_def cpython_sel
      str_def in_class_def digit09_def ascii_lower_def)

lemma paypal_feature_penalties:
  "feature_penalties [(''URL_Length'', 48), (''Special_Chars'', 5), (''Num_Subdomains'', 1),
            (''Suspicious_Keywords'', 3), (''Has_HTTPS'', 1)] = 30"
  by (simp add: feature_penalties_def dict_get_def)

lemma paypal_rules:
  "predict_with_rules cpython
     [(''URL_Length'', 48), (''Special_Chars'', 5), (''Num_Subdomains'', 1),
      (''Suspicious_Keywords'', 3), (''Has_HTTPS'', 1)]
     (Str (str ''https://paypal-secure-login.suspicious-domain.tk'')) = Inr (Safe, 65, 45)"
  by (simp add: predict_with_rules_untrusted [OF paypal_untrusted] paypal_url_penalties
      paypal_feature_penalties)

lemma predict_rule_path:
  assumes "extract_features env url = Inr f"
    and "predict_with_rules env f url = Inr (l, c, r)"
    and "model_loaded self = False"
  shows "predict env self url = Inr (l, c, r, f)"
proof -
  obtain t reason where "is_trusted_domain env url = Inr (t, reason)"
    using is_trusted_domain_total by blast
  with assms show ?thesis
    by (simp add: predict_def predict_try_def try_except_def)
qed

lemma paypal_predict:
  "predict_url cpython (Str (str ''https://paypal-secure-login.suspicious-domain.tk''))
     = Inr (Safe, 65, 45, [(''URL_Length'', 48), (''Special_Chars'', 5), (''Num_Subdomains'', 1),
            (''Suspicious_Keywords'', 3), (''Has_HTTPS'', 1)])"
  unfolding predict_url_def
  by (rule predict_rule_path [OF paypal_features paypal_rules])
     (simp add: PhishingPredictor_cpython)


subsection \<open>Keyword insertion\<close>

lemma plain_parse:
  "urlparse cpython (str ''http://a/'' @ str ''?=&-_'')
     = Inr \<lparr>scheme = str ''http'', netloc = str ''a''\<rparr>"
  by (simp add: cpython_sel string_eval urlparse_eval Let_def)

lemma padded_parse:
  "urlparse cpython (str ''http://a/'' @ str ''password'' @ str ''?=&-_'')
     = Inr \<lparr>scheme = str ''http'', netloc = str ''a''\<rparr>"
  by (simp add: cpython_sel string_eval urlparse_eval Let_def)

lemma host_a_untrusted:
  assumes "urlparse cpython u = Inr \<lparr>scheme = str ''http'', netloc = str ''a''\<rparr>"
  shows "is_trusted_domain cpython (Str u) = Inr (False, str ''Not in trusted lists'')"
proof (rule is_trusted_domain_False [OF assms])
  let ?d = "str ''a''"
  show "normalize_domain cpython (netloc \<lparr>scheme = str ''http'', netloc = ?d\<rparr>) = ?d"
    by (simp add: normalize_domain_def prefixes_to_remove_def cpython_sel string_eval)
  show "find (domain_matches ?d) TRUSTED_DOMAINS = None"
    by (simp add: domain_matches_def TRUSTED_DOMAINS_def string_eval)
  show "find (domain_matches ?d) MALAYSIAN_EDU_DOMAINS = None"
    by (simp add: domain_matches_def MALAYSIAN_EDU_DOMAINS_def string_eval)
  show "find (\<lambda>pattern. re_search (word_char cpython) (snd pattern) ?d) TRUSTED_TLD_PATTERNS = None"
    by (simp add: TRUSTED_TLD_PATTERNS_def re_search_Lit_absent str_def)
  show "\<not> endswith (str ''.gov'') ?d" "\<not> endswith (str ''.mil'') ?d"
    "\<not> endswith (str ''.edu'') ?d" "\<not> contains (str ''.ac.'') ?d"
    by (simp_all add: string_eval)
  show "\<not> list_ex (\<lambda>keyword. contains keyword ?d) university_keywords"
    by (simp add: university_keywords_def string_eval)
qed

lemma plain_features:
  "extract_features cpython (Str (str ''http://a/'' @ str ''?=&-_''))
     = Inr [(''URL_Length'', 14), (''Special_Chars'', 8), (''Num_Subdomains'', 0),
            (''Suspicious_Keywords'', 0), (''Has_HTTPS'', 0)]"
  by (simp add: extract_features_def extract_features_try_def try_except_def
      suspicious_keywords_def cpython_sel string_eval urlparse_eval Let_def)

lemma padded_features:
  "extract_features cpython (Str (str ''http://a/'' @ str ''password'' @ str ''?=&-_''))
     = Inr [(''URL_Length'', 22), (''Special_Chars'', 8), (''Num_Subdomains'', 0),
            (''Suspicious_Keywords'', 1), (''Has_HTTPS'', 0)]"
  by (simp add: extract_features_def extract_features_try_def try_except_def
      suspicious_keywords_def cpython_sel string_eval urlparse_eval Let_def)

lemma plain_url_penalties: "url_penalties cpython (str ''http://a/'' @ str ''?=&-_'') = 0"
  by (simp add: url_penalties_def re_search_IP_no_digit suspicious_tlds_def cpython_sel
      str_def in_class_def digit09_def ascii_lower_def)

lemma padded_url_penalties:
  "url_penalties cpython (str ''http://a/'' @ str ''password'' @ str ''?=&-_'') = 0"
  by (simp add: url_penalties_def re_search_IP_no_digit suspicious_tlds_def cpython_sel
      str_def in_class_def digit09_def ascii_lower_def)

lemma plain_rules:
  "predict_with_rules cpython
     [(''URL_Length'', 14), (''Special_Chars'', 8), (''Num_Subdomains'', 0),
      (''Suspicious_Keywords'', 0), (''Has_HTTPS'', 0)]
     (Str (str ''http://a/'' @ str ''?=&-_'')) = Inr (Safe, 65, 45)"
  by (simp add: predict_with_rules_untrusted [OF host_a_untrusted [OF plain_parse]]
      plain_url_penalties feature_penalties_def dict_get_def)

lemma padded_rules:
  "predict_with_rules cpython
     [(''URL_Length'', 22), (''Special_Chars'', 8), (''Num_Subdomains'', 0),
      (''Suspicious_Keywords'', 1), (''Has_HTTPS'', 0)]
     (Str (str ''http://a/'' @ str ''password'' @ str ''?=&-_'')) = Inr (Safe, 80, 30)"
  by (simp add: predict_with_rules_untrusted [OF host_a_untrusted [OF padded_parse]]
      padded_url_penalties feature_penalties_def dict_get_def)

text \<open>
  Claim C4 as stated fails. Inserting the keyword \<open>password\<close> into
  \<open>http://a/?=&-_\<close> lengthens the URL from 14 to 22 characters, so the special-character
  ratio falls from 8/14 to 8/22, below 0.4: the +25 of the ratio band is lost, the new
  keyword adds only +10, and the risk score drops from 45 to 30.
\<close>

theorem keyword_insertion_counterexample:
  "predict_url cpython (Str (str ''http://a/'' @ str ''?=&-_''))
     = Inr (Safe, 65, 45, [(''URL_Length'', 14), (''Special_Chars'', 8), (''Num_Subdomains'', 0),
            (''Suspicious_Keywords'', 0), (''Has_HTTPS'', 0)])
   \<and> predict_url cpython (Str (str ''http://a/'' @ str ''password'' @ str ''?=&-_''))
     = Inr (Safe, 80, 30, [(''URL_Length'', 22), (''Special_Chars'', 8), (''Num_Subdomains'', 0),
            (''Suspicious_Keywords'', 1), (''Has_HTTPS'', 0)])
   \<and> (30 :: int) < 45"
  unfolding predict_url_def
  by (simp add: predict_rule_path [OF plain_features plain_rules]
      predict_rule_path [OF padded_features padded_rules] PhishingPredictor_cpython)

text \<open>The amended claim C4 at the keyword counts 0 and 1.\<close>

theorem keyword_feature_monotone_witness:
  "(0 :: real) \<le> 1 \<and>
   (\<exists>label confidence risk_score label' confidence' risk_score'.
     predict_with_rules cpython [(''Suspicious_Keywords'', 0)] (Str (str ''http://a.io''))
       = Inr (label, confidence, risk_score) \<and>
     predict_with_rules cpython [(''Suspicious_Keywords'', 1)] (Str (str ''http://a.io''))
       = Inr (label', confidence', risk_score') \<and>
     risk_score \<le> risk_score')"
proof -
  have h: "(0 :: real) \<le> 1" by simp
  show ?thesis
    using h keyword_feature_monotone [OF h, of cpython "[]" "str ''http://a.io''"] by simp
qed

subsection \<open>The rule path on the paypal URL\<close>

text \<open>
  Claim C5 as stated fails. On the features of
  \<open>https://paypal-secure-login.suspicious-domain.tk\<close> the rule scorer adds +30 for three
  keywords (\<open>paypal\<close>, \<open>secure\<close>, \<open>login\<close>) and +15 for the suspicious TLD: 45, below the
  threshold of 70, so the label is Safe.
\<close>

theorem paypal_counterexample:
  "predict_with_rules cpython
     [(''URL_Length'', 48), (''Special_Chars'', 5), (''Num_Subdomains'', 1),
      (''Suspicious_Keywords'', 3), (''Has_HTTPS'', 1)]
     (Str (str ''https://paypal-secure-login.suspicious-domain.tk'')) = Inr (Safe, 65, 45)
   \<and> Safe \<noteq> Phishing \<and> \<not> (70 :: int) \<le> 45"
  by (simp add: paypal_rules)

text \<open>
  Claim C5, as amended. With no model loaded, predicting
  \<open>https://paypal-secure-login.suspicious-domain.tk\<close> yields label Safe with confidence 65
  and risk score 45.
\<close>

theorem paypal_verdict:
  "predict_url cpython (Str (str ''https://paypal-secure-login.suspicious-domain.tk''))
     = Inr (Safe, 65, 45, [(''URL_Length'', 48), (''Special_Chars'', 5), (''Num_Subdomains'', 1),
            (''Suspicious_Keywords'', 3), (''Has_HTTPS'', 1)])"
  by (rule paypal_predict)

subsection \<open>The claims at concrete inputs\<close>

text \<open>
  Claim C1 at \<open>https://google.com\<close>, with a model loaded: 98/2 from the rule scorer, 97/3
  from the model scorer and from \<open>predict_url\<close>.
\<close>

theorem trust_override_constants_witness:
  "is_trusted_domain (with_model cpython (const_booster (1 / 2))) (Str (str ''https://google.com''))
     = Inr (True, str ''Major trusted domain: google.com'')
   \<and> predict_with_rules (with_model cpython (const_booster (1 / 2))) zero_features
        (Str (str ''https://google.com'')) = Inr (Safe, 98, 2)
   \<and> predict_with_xgboost (with_model cpython (const_booster (1 / 2)))
        (PhishingPredictor (with_model cpython (const_booster (1 / 2)))) zero_features
        (Str (str ''https://google.com'')) = Inr (Safe, 97, 3)
   \<and> predict_url (with_model cpython (const_booster (1 / 2))) (Str (str ''https://google.com''))
     = Inr (Safe, 97, 3, [(''URL_Length'', 18), (''Special_Chars'', 2), (''Num_Subdomains'', 0),
            (''Suspicious_Keywords'', 0), (''Has_HTTPS'', 1)])"
proof -
  let ?E = "with_model cpython (const_booster (1 / 2))"
  let ?u = "Str (str ''https://google.com'')"
  have h: "is_trusted_domain ?E ?u = Inr (True, str ''Major trusted domain: google.com'')"
    by (simp only: is_trusted_domain_with_model google_trusted)
  have f: "extract_features ?E ?u = Inr [(''URL_Length'', 18), (''Special_Chars'', 2),
      (''Num_Subdomains'', 0), (''Suspicious_Keywords'', 0), (''Has_HTTPS'', 1)]"
    by (simp only: extract_features_with_model google_features)
  show ?thesis
    using h f
      trust_override_constants [OF h, of zero_features "PhishingPredictor ?E"]
    by (simp add: with_model_sel PhishingPredictor_with_model)
qed

text \<open>The same URL with no model loaded: \<open>predict_url\<close> answers 98/2.\<close>

lemma google_rule_path:
  "predict_url cpython (Str (str ''https://google.com''))
     = Inr (Safe, 98, 2, [(''URL_Length'', 18), (''Special_Chars'', 2), (''Num_Subdomains'', 0),
            (''Suspicious_Keywords'', 0), (''Has_HTTPS'', 1)])"
  unfolding predict_url_def
  by (rule predict_rule_path [OF google_features predict_with_rules_trusted [OF google_trusted]])
     (simp add: PhishingPredictor_cpython)

text \<open>
  Claim C2 at a feature set that scores exactly 70 (+30 for the length, +40 for four
  keywords): Phishing.
\<close>

theorem rule_verdict_bands_witness:
  "is_trusted_domain cpython (Str (str ''http://a.io'')) = Inr (False, str ''Not in trusted lists'')
   \<and> predict_with_rules cpython [(''URL_Length'', 151), (''Suspicious_Keywords'', 4)]
        (Str (str ''http://a.io'')) = Inr (Phishing, 70, 70)"
proof -
  have s: "rule_score cpython [(''URL_Length'', 151), (''Suspicious_Keywords'', 4)]
      (Str (str ''http://a.io'')) = Inr 70"
    by (simp add: rule_score_Str short_url_penalties feature_penalties_def dict_get_def)
  show ?thesis
    using short_untrusted s
      rule_verdict_bands [OF short_untrusted,
        of "[(''URL_Length'', 151), (''Suspicious_Keywords'', 4)]"]
    by auto
qed

lemma model_short_untrusted:
  "is_trusted_domain (with_model cpython b) (Str (str ''http://a.io''))
     = Inr (False, str ''Not in trusted lists'')"
  by (simp only: is_trusted_domain_with_model short_untrusted)

lemma zero_feature_row: "feature_row zero_features feature_names = Inr [0, 0, 0, 0, 0]"
  by (simp add: zero_features_def feature_names_def dict_item_def)

lemma trunc_97_128: "py_int (97 / 128 * 100) = 75"
  by (simp add: py_int_def floor_eq_iff)

lemma model_scores:
  "predict_with_xgboost (with_model cpython (const_booster p))
     (PhishingPredictor (with_model cpython (const_booster p))) zero_features
     (Str (str ''http://a.io''))
   = Inr (if p > 0.7 then (Phishing, p * 100, py_int (p * 100))
          else if p > 0.3 then (Safe, (1 - p) * 85, py_int (p * 100))
          else (Safe, (1 - p) * 100, py_int (p * 100)))"
  by (simp add: predict_with_xgboost_def predict_with_xgboost_try_def try_except_def
      with_model_sel cpython_sel model_short_untrusted zero_feature_row
      PhishingPredictor_with_model const_booster_def)

lemma model_97_128:
  "predict_with_xgboost (with_model cpython (const_booster (97 / 128)))
     (PhishingPredictor (with_model cpython (const_booster (97 / 128)))) zero_features
     (Str (str ''http://a.io'')) = Inr (Phishing, 97 / 128 * 100, 75)"
  unfolding model_scores trunc_97_128 by simp

text \<open>The middle and the low band, at 1/2 and at 1/4.\<close>

lemma model_half:
  "predict_with_xgboost (with_model cpython (const_booster (1 / 2)))
     (PhishingPredictor (with_model cpython (const_booster (1 / 2)))) zero_features
     (Str (str ''http://a.io'')) = Inr (Safe, 85 / 2, 50)"
  unfolding model_scores by (simp add: py_int_def)

lemma model_quarter:
  "predict_with_xgboost (with_model cpython (const_booster (1 / 4)))
     (PhishingPredictor (with_model cpython (const_booster (1 / 4)))) zero_features
     (Str (str ''http://a.io'')) = Inr (Safe, 75, 25)"
  unfolding model_scores by (simp add: py_int_def)

text \<open>
  Claim C3 as stated fails at \<open>p = 97/128 = 0.7578125\<close>, a \<open>float32\<close> value whose
  product with 100 is 75.78125 exactly, in \<open>float32\<close>, in \<open>float64\<close> and in the reals: the
  code truncates it to 75, where the claim has it rounded to 76.
\<close>

theorem model_rounding_counterexample:
  "predict_with_xgboost (with_model cpython (const_booster (97 / 128)))
     (PhishingPredictor (with_model cpython (const_booster (97 / 128)))) zero_features
     (Str (str ''http://a.io''))
   \<noteq> Inr (Phishing, 97 / 128 * 100, round (97 / 128 * 100 :: real))"
proof -
  have r: "round (97 / 128 * 100 :: real) = 76"
    by (simp add: round_def floor_eq_iff)
  show ?thesis unfolding r model_97_128 by simp
qed

text \<open>The amended claim C3 at \<open>p = 97/128\<close>, in the exact arithmetic of the fixture.\<close>

theorem model_verdict_bands_witness:
  "xgboost_installed (with_model cpython (const_booster (97 / 128)))
   \<and> is_trusted_domain (with_model cpython (const_booster (97 / 128))) (Str (str ''http://a.io''))
       = Inr (False, str ''Not in trusted lists'')
   \<and> feature_row zero_features feature_names = Inr [0, 0, 0, 0, 0]
   \<and> model (PhishingPredictor (with_model cpython (const_booster (97 / 128))))
       = Some (const_booster (97 / 128))
   \<and> const_booster (97 / 128) [0, 0, 0, 0, 0] = Inr (97 / 128)
   \<and> (0 :: real) \<le> 97 / 128 \<and> (97 / 128 :: real) \<le> 1
   \<and> np_greater (with_model cpython (const_booster (97 / 128))) = (\<lambda>a b. a > b)
   \<and> np_multiply (with_model cpython (const_booster (97 / 128))) = (\<lambda>a b. a * b)
   \<and> np_subtract (with_model cpython (const_booster (97 / 128))) = (\<lambda>a b. a - b)
   \<and> predict_with_xgboost (with_model cpython (const_booster (97 / 128)))
        (PhishingPredictor (with_model cpython (const_booster (97 / 128)))) zero_features
        (Str (str ''http://a.io'')) = Inr (Phishing, 97 / 128 * 100, 75)"
proof -
  let ?E = "with_model cpython (const_booster (97 / 128))"
  have 1: "xgboost_installed ?E" by (simp add: with_model_sel)
  have 4: "model (PhishingPredictor ?E) = Some (const_booster (97 / 128))"
    by (simp add: PhishingPredictor_with_model)
  have 5: "const_booster (97 / 128) [0, 0, 0, 0, 0] = Inr (97 / 128)"
    by (simp add: const_booster_def)
  have 6: "(0 :: real) \<le> 97 / 128" and 7: "(97 / 128 :: real) \<le> 1" by simp_all
  have 8: "np_greater ?E = (\<lambda>a b. a > b) \<and> np_multiply ?E = (\<lambda>a b. a * b)
      \<and> np_subtract ?E = (\<lambda>a b. a - b)"
    by (simp add: with_model_sel cpython_sel)
  have fl: "\<lfloor>97 / 128 * 100 :: real\<rfloor> = 75"
    by (simp add: floor_eq_iff)
  note t = model_verdict_bands [OF 1 model_short_untrusted zero_feature_row 4 5 6 7]
  from t [THEN conjunct2, rule_format, OF 8]
  have "predict_with_xgboost ?E (PhishingPredictor ?E) zero_features (Str (str ''http://a.io''))
      = Inr (Phishing, 97 / 128 * 100, 75)"
    unfolding fl by simp
  with 1 4 5 6 7 8 model_short_untrusted [of "const_booster (97 / 128)"] zero_feature_row
  show ?thesis by simp
qed

lemma bracket_parse: "urlparse cpython (str ''http://[abc'') = Inl ValueError"
  by (simp add: cpython_sel string_eval urlparse_eval Let_def)

text \<open>
  Claim C6 at \<open>http://[abc\<close>, where \<open>urlparse\<close> raises \<open>ValueError\<close> (an unmatched
  bracket): all features are zero.
\<close>

theorem extract_features_shape_witness:
  "urlparse cpython (str ''http://[abc'') = Inl ValueError
   \<and> extract_features cpython (Str (str ''http://[abc'')) = Inr zero_features"
  using bracket_parse extract_features_shape [of cpython "str ''http://[abc''"] by auto

text \<open>
  Claim C7 at the argument \<open>None\<close> with no model loaded: \<open>url.lower()\<close> raises inside the
  rule scorer, and \<open>predict\<close> answers the default verdict.
\<close>

theorem predict_never_raises_witness:
  "predict_try cpython (PhishingPredictor cpython) PyNone = Inl AttributeError
   \<and> extract_features cpython PyNone = Inr zero_features
   \<and> predict cpython (PhishingPredictor cpython) PyNone = Inr (Safe, 75, 25, zero_features)"
proof -
  have f: "extract_features cpython PyNone = Inr zero_features"
    by (simp add: extract_features_def extract_features_try_def try_except_def)
  have t: "is_trusted_domain cpython PyNone = Inr (False, str ''Error in domain check'')"
    by (simp add: is_trusted_domain_def is_trusted_domain_try_def try_except_def)
  have r: "predict_try cpython (PhishingPredictor cpython) PyNone = Inl AttributeError"
    by (simp add: predict_try_def f PhishingPredictor_cpython predict_with_rules_def t
        rule_score_PyNone)
  show ?thesis
    using r f predict_never_raises [of cpython "PhishingPredictor cpython" "[]" PyNone AttributeError]
    by auto
qed



text \<open>Claim C9 at the empty dictionary and \<open>http://a.io\<close>.\<close>

theorem missing_feature_defaults_witness:
  "map_of ([] :: features) ''Has_HTTPS'' = None
   \<and> rule_score cpython [] (Str (str ''http://a.io''))
       = rule_score cpython [(''Has_HTTPS'', 1)] (Str (str ''http://a.io''))
   \<and> ''URL_Length'' \<in> {''URL_Length'', ''Special_Chars'', ''Suspicious_Keywords'', ''Num_Subdomains''}
   \<and> map_of ([] :: features) ''URL_Length'' = None
   \<and> rule_score cpython [] (Str (str ''http://a.io''))
       = rule_score cpython [(''URL_Length'', 0)] (Str (str ''http://a.io''))
   \<and> rule_score cpython [] (Str (str ''http://a.io'')) = Inr 0
   \<and> rule_score cpython [(''Has_HTTPS'', 0)] (Str (str ''http://a.io'')) = Inr 20"
proof -
  note t = missing_feature_defaults [of "[]" cpython "Str (str ''http://a.io'')" "''URL_Length''"
      "str ''http://a.io''"]
  have a: "rule_score cpython [] (Str (str ''http://a.io''))
       = rule_score cpython [(''Has_HTTPS'', 1)] (Str (str ''http://a.io''))"
    using t [THEN conjunct1] by simp
  have b: "rule_score cpython [] (Str (str ''http://a.io''))
       = rule_score cpython [(''URL_Length'', 0)] (Str (str ''http://a.io''))"
    using t [THEN conjunct2, THEN conjunct1] by simp
  have c: "rule_score cpython [] (Str (str ''http://a.io'')) = Inr 0"
    using t [THEN conjunct2, THEN conjunct2, THEN conjunct2, THEN conjunct1]
    by (simp only: short_url_penalties)
  have d: "rule_score cpython [(''Has_HTTPS'', 0)] (Str (str ''http://a.io'')) = Inr 20"
    using t [THEN conjunct2, THEN conjunct2, THEN conjunct2, THEN conjunct2]
    by (simp only: short_url_penalties add_0_right)
  show ?thesis
    by (intro conjI a b c d) simp_all
qed

text \<open>Claim C10 at \<open>URL_Length = 0\<close> and at the empty URL.\<close>

theorem ratio_division_total_witness:
  "special_char_ratio 3 0 = Inr 3 \<and> special_char_ratio 5 48 = Inr (5 / 48)
   \<and> rule_score cpython [(''Special_Chars'', 3), (''URL_Length'', 0)] (Str []) = Inr 25"
proof -
  have u: "url_penalties cpython [] = 0"
    by (simp add: url_penalties_def re_search_IP_no_digit suspicious_tlds_def cpython_sel
        str_def ascii_lower_def)
  show ?thesis
    using ratio_division_total [of 3 0 cpython "[]" "[]"] ratio_division_total [of 5 48 cpython "[]" "[]"]
    by (simp add: rule_score_Str u feature_penalties_def dict_get_def)
qed

end
